theory Spec2Isabelle
  imports Main "HOL-Library.Word"
begin

section \<open>The action cache server of server/remote\_cache/action\_cache\_server\<close>

text \<open>
  A shallow embedding of \<^verbatim>\<open>action_cache_server.go\<close>. The file holds the two RPC
  handlers \<^verbatim>\<open>GetActionResult\<close> and \<^verbatim>\<open>UpdateActionResult\<close> and the existence
  validation that the read handler runs before it honours a hit.

  Conventions of the embedding:
  \<^item> a Go pointer to a message (\<^verbatim>\<open>*repb.Digest\<close>, \<^verbatim>\<open>*repb.Directory\<close>, ...) is an
    \<open>option\<close>, \<open>None\<close> being \<^verbatim>\<open>nil\<close>; the nil-safe getters of the generated code
    (\<^verbatim>\<open>GetDigest\<close>, \<^verbatim>\<open>GetSizeBytes\<close>, \<^verbatim>\<open>GetFiles\<close>) are written out;
  \<^item> a Go \<^verbatim>\<open>error\<close> result is a value: \<open>error option\<close> for a function that
    returns only an error, \<open>error + 'a\<close> for one that returns a value or an error;
  \<^item> the cache is an interface of the repository that lives outside this file. It is a
    record of operations over an abstract store \<open>'s\<close>; reads leave the store as it is,
    \<^verbatim>\<open>Set\<close> returns the new one;
  \<^item> every handler also returns the list of cache calls it made, in order, so that
    statements about what is (not) looked up can be made.
\<close>

subsection \<open>Data model\<close>

type_synonym blob = "8 word list"

text \<open>\<^verbatim>\<open>repb.Digest\<close>: the hash and the size, an \<^verbatim>\<open>int64\<close>.\<close>

record Digest =
  Hash :: string
  SizeBytes :: "64 word"

text \<open>
  Modelled from the spec: the generated protobuf types of \<^verbatim>\<open>proto/remote_execution\<close>
  are not among the sources. The records below carry the fields the spec's data model
  lists and the code reads. The fields of \<^verbatim>\<open>ExecutedActionMetadata\<close> other than
  \<^verbatim>\<open>Worker\<close> are kept as one list of (field name, encoded value) pairs, empty when
  no other field is set.
\<close>

record OutputFile =
  Path :: string
  Digest :: "Digest option"
  Contents :: blob

record OutputDirectory =
  DirPath :: string
  TreeDigest :: "Digest option"

record FileNode =
  FileDigest :: "Digest option"

record Directory =
  Files :: "FileNode list"

record Tree =
  Root :: "Directory option"
  Children :: "Directory list"

record ExecutedActionMetadata =
  Worker :: string
  OtherFields :: "(string \<times> blob) list"

record ActionResult =
  OutputFiles :: "OutputFile list"
  OutputDirectories :: "OutputDirectory list"
  ExecutionMetadata :: "ExecutedActionMetadata option"

record GetActionResultRequest =
  GetReq_ActionDigest :: "Digest option"

record UpdateActionResultRequest =
  UpdReq_ActionDigest :: "Digest option"
  UpdReq_ActionResult :: "ActionResult option"

text \<open>The nil-safe getters.\<close>

definition GetSizeBytes :: "Digest option \<Rightarrow> 64 word" where
  "GetSizeBytes d = (case d of None \<Rightarrow> 0 | Some x \<Rightarrow> SizeBytes x)"

definition GetFiles :: "Directory option \<Rightarrow> FileNode list" where
  "GetFiles dir = (case dir of None \<Rightarrow> [] | Some x \<Rightarrow> Files x)"

subsection \<open>Errors\<close>

text \<open>
  The status codes that package \<^verbatim>\<open>status\<close> is asked for in this file or that its doc
  comments name, and any other by its number. An error is either a status error, a
  code with its message, or a plain Go error known by its message only (package
  \<^verbatim>\<open>proto\<close> and \<^verbatim>\<open>fmt.Errorf\<close> produce those).
\<close>

datatype code =
  InvalidArgument | NotFound | Internal | FailedPrecondition | ResourceExhausted
  | OtherCode nat

datatype error = StatusError code string | PlainError string

text \<open>The status code that an error carries: a plain Go error carries none.\<close>

fun statusCode :: "error \<Rightarrow> code option" where
  "statusCode (StatusError c m) = Some c"
| "statusCode (PlainError m) = None"

subsection \<open>What the server takes from outside this file\<close>

text \<open>The calls a handler makes on the cache, in the order it makes them.\<close>

datatype 'ctx call =
  CallGet 'ctx "Digest option"
  | CallSet 'ctx "Digest option" blob
  | CallContainsMulti 'ctx "Digest option list"

text \<open>
  \<^verbatim>\<open>interfaces.DigestCache\<close>. \<^verbatim>\<open>ContainsMulti\<close> answers with a Go map keyed by the
  digest pointers it was given; the model keys the map by what the pointer refers to.
\<close>

record ('ctx, 's) DigestCache =
  cache_Get :: "'ctx \<Rightarrow> Digest option \<Rightarrow> 's \<Rightarrow> error + blob"
  cache_Set :: "'ctx \<Rightarrow> Digest option \<Rightarrow> blob \<Rightarrow> 's \<Rightarrow> error option \<times> 's"
  cache_ContainsMulti :: "'ctx \<Rightarrow> Digest option list \<Rightarrow> 's \<Rightarrow> error + (Digest option \<rightharpoonup> bool)"

text \<open>
  The packages the file imports, as one record: \<^verbatim>\<open>env.GetDigestCache()\<close> and its
  \<^verbatim>\<open>WithPrefix\<close>, \<^verbatim>\<open>digest.Validate\<close> (only its error result is used),
  \<^verbatim>\<open>perms.AttachUserPrefixToContext\<close>, \<^verbatim>\<open>proto.Marshal\<close> and \<^verbatim>\<open>proto.Unmarshal\<close>
  at the two message types, \<^verbatim>\<open>base64.StdEncoding.EncodeToString(uuid.NodeID())\<close>, and
  the three renderings that \<^verbatim>\<open>fmt\<close> is asked for: a digest under \<^verbatim>\<open>%s\<close> and under
  \<^verbatim>\<open>%q\<close>, and an error under \<^verbatim>\<open>%s\<close>.
\<close>

record ('ctx, 's) Env =
  GetDigestCache :: "('ctx, 's) DigestCache option"
  WithPrefix :: "('ctx, 's) DigestCache \<Rightarrow> string \<Rightarrow> ('ctx, 's) DigestCache option"
  Validate :: "Digest \<Rightarrow> error option"
  AttachUserPrefixToContext :: "'ctx \<Rightarrow> 'ctx"
  Marshal :: "ActionResult \<Rightarrow> string + blob"
  UnmarshalActionResult :: "blob \<Rightarrow> string + ActionResult"
  UnmarshalTree :: "blob \<Rightarrow> string + Tree"
  NodeID_base64 :: string
  fmt_s :: "Digest option \<Rightarrow> string"
  fmt_q :: "Digest option \<Rightarrow> string"
  fmt_err :: "error \<Rightarrow> string"

subsection \<open>The server\<close>

definition acCachePrefix :: string where
  "acCachePrefix = ''ac-''"

record ('ctx, 's) ActionCacheServer =
  env :: "('ctx, 's) Env"
  cache :: "('ctx, 's) DigestCache"

text \<open>
  \<^verbatim>\<open>env.GetDigestCache()\<close> may be nil, and the constructor calls \<^verbatim>\<open>WithPrefix\<close> on it
  before its own nil test: on a nil cache the call panics, which is the result \<open>None\<close>
  here. Otherwise the result is the error of the nil test or the server.
\<close>

definition NewActionCacheServer ::
  "('ctx, 's) Env \<Rightarrow> (error + ('ctx, 's) ActionCacheServer) option" where
  "NewActionCacheServer e =
     (case GetDigestCache e of
        None \<Rightarrow> None
      | Some base \<Rightarrow>
          (case WithPrefix e base acCachePrefix of
             None \<Rightarrow>
               Some (Inl (PlainError ''A cache is required to enable the ActionCacheServer''))
           | Some c \<Rightarrow> Some (Inr \<lparr>env = e, cache = c\<rparr>)))"

text \<open>
  Sequencing of two steps that each return an error or nil, and the calls they made:
  the second step runs only when the first returned nil.
\<close>

definition andThen ::
  "error option \<times> 'ctx call list \<Rightarrow> error option \<times> 'ctx call list
   \<Rightarrow> error option \<times> 'ctx call list" where
  "andThen a b = (case fst a of Some err \<Rightarrow> a | None \<Rightarrow> (fst b, snd a @ snd b))"

subsubsection \<open>checkFilesExist\<close>

text \<open>
  The two errors of the loop, \<^verbatim>\<open>status.InternalErrorf\<close> and
  \<^verbatim>\<open>status.NotFoundErrorf\<close> with their messages, and the loop over the requested
  digests, given the map that the cache answered with.
\<close>

definition inconsistentErr :: "('ctx, 's) Env \<Rightarrow> Digest option \<Rightarrow> error" where
  "inconsistentErr e d =
     StatusError Internal
       (''AC Inconsistent result from cache.ContainsMulti (missing '' @ fmt_q e d @ '')'')"

definition fileNotFoundErr :: "('ctx, 's) Env \<Rightarrow> Digest option \<Rightarrow> error" where
  "fileNotFoundErr e d =
     StatusError NotFound
       (''ActionResult output file: '' @ [CHR 0x27] @ fmt_s e d @ [CHR 0x27]
          @ '' not found in cache'')"

fun checkFound ::
  "('ctx, 's) Env \<Rightarrow> (Digest option \<rightharpoonup> bool) \<Rightarrow> Digest option list \<Rightarrow> error option" where
  "checkFound e foundMap [] = None"
| "checkFound e foundMap (d # ds) =
     (case foundMap d of
        None \<Rightarrow> Some (inconsistentErr e d)
      | Some found \<Rightarrow>
          if \<not> found then Some (fileNotFoundErr e d)
          else checkFound e foundMap ds)"

definition checkFilesExist ::
  "('ctx, 's) ActionCacheServer \<Rightarrow> 'ctx \<Rightarrow> Digest option list \<Rightarrow> 's
   \<Rightarrow> error option \<times> 'ctx call list" where
  "checkFilesExist s ctx digests st =
     (case cache_ContainsMulti (cache s) ctx digests st of
        Inl err \<Rightarrow> (Some err, [CallContainsMulti ctx digests])
      | Inr foundMap \<Rightarrow> (checkFound (env s) foundMap digests, [CallContainsMulti ctx digests]))"

subsubsection \<open>checkDirExists\<close>

text \<open>The loop that collects the digests of a directory's files; \<open>acc\<close> is the slice.\<close>

fun dirDigests :: "FileNode list \<Rightarrow> Digest option list \<Rightarrow> Digest option list" where
  "dirDigests [] acc = acc"
| "dirDigests (f # fs) acc =
     (if FileDigest f = None then dirDigests fs acc
      else dirDigests fs (acc @ [FileDigest f]))"

definition checkDirExists ::
  "('ctx, 's) ActionCacheServer \<Rightarrow> 'ctx \<Rightarrow> Directory option \<Rightarrow> 's
   \<Rightarrow> error option \<times> 'ctx call list" where
  "checkDirExists s ctx dir st = checkFilesExist s ctx (dirDigests (GetFiles dir) []) st"

subsubsection \<open>validateActionResult\<close>

text \<open>The first loop: the digests of the output files that are to be looked up.\<close>

fun outputFileDigests :: "OutputFile list \<Rightarrow> Digest option list \<Rightarrow> Digest option list" where
  "outputFileDigests [] acc = acc"
| "outputFileDigests (f # fs) acc =
     (if 0 < length (Contents f) \<and> 0 < sint (GetSizeBytes (Digest f))
      then outputFileDigests fs (acc @ [Digest f])
      else outputFileDigests fs acc)"

text \<open>The inner loop over the children of a tree.\<close>

fun checkChildren ::
  "('ctx, 's) ActionCacheServer \<Rightarrow> 'ctx \<Rightarrow> Directory list \<Rightarrow> 's
   \<Rightarrow> error option \<times> 'ctx call list" where
  "checkChildren s ctx [] st = (None, [])"
| "checkChildren s ctx (childDir # rest) st =
     andThen (checkDirExists s ctx (Some childDir) st) (checkChildren s ctx rest st)"

text \<open>The second loop, over the output directories.\<close>

fun checkOutputDirectories ::
  "('ctx, 's) ActionCacheServer \<Rightarrow> 'ctx \<Rightarrow> OutputDirectory list \<Rightarrow> 's
   \<Rightarrow> error option \<times> 'ctx call list" where
  "checkOutputDirectories s ctx [] st = (None, [])"
| "checkOutputDirectories s ctx (d # ds) st =
     (case cache_Get (cache s) ctx (TreeDigest d) st of
        Inl err \<Rightarrow> (Some err, [CallGet ctx (TreeDigest d)])
      | Inr blob \<Rightarrow>
          (case UnmarshalTree (env s) blob of
             Inl msg \<Rightarrow> (Some (PlainError msg), [CallGet ctx (TreeDigest d)])
           | Inr tree \<Rightarrow>
               andThen (None, [CallGet ctx (TreeDigest d)])
                 (andThen (checkDirExists s ctx (Root tree) st)
                    (andThen (checkChildren s ctx (Children tree) st)
                       (checkOutputDirectories s ctx ds st)))))"

definition validateActionResult ::
  "('ctx, 's) ActionCacheServer \<Rightarrow> 'ctx \<Rightarrow> ActionResult \<Rightarrow> 's
   \<Rightarrow> error option \<times> 'ctx call list" where
  "validateActionResult s ctx r st =
     andThen (checkFilesExist s ctx (outputFileDigests (OutputFiles r) []) st)
       (checkOutputDirectories s ctx (OutputDirectories r) st)"

subsubsection \<open>The handlers\<close>

definition setWorkerMetadata :: "('ctx, 's) Env \<Rightarrow> ActionResult \<Rightarrow> ActionResult" where
  "setWorkerMetadata e ar =
     ar\<lparr>ExecutionMetadata := Some \<lparr>Worker = NodeID_base64 e, OtherFields = []\<rparr>\<rparr>"

text \<open>The message of the two \<^verbatim>\<open>NotFound\<close> errors of the read handler.\<close>

definition notFoundMsg :: "('ctx, 's) Env \<Rightarrow> Digest option \<Rightarrow> error \<Rightarrow> string" where
  "notFoundMsg e d err =
     ''ActionResult ('' @ fmt_s e d @ '') not found: '' @ fmt_err e err"

definition GetActionResult ::
  "('ctx, 's) ActionCacheServer \<Rightarrow> 'ctx \<Rightarrow> GetActionResultRequest \<Rightarrow> 's
   \<Rightarrow> (error + ActionResult) \<times> 'ctx call list" where
  "GetActionResult s ctx0 req st =
     (case GetReq_ActionDigest req of
        None \<Rightarrow> (Inl (StatusError InvalidArgument ''ActionDigest is a required field''), [])
      | Some ad \<Rightarrow>
          (case Validate (env s) ad of
             Some err \<Rightarrow> (Inl err, [])
           | None \<Rightarrow>
               let ctx = AttachUserPrefixToContext (env s) ctx0;
                   d = GetReq_ActionDigest req
               in (case cache_Get (cache s) ctx d st of
                     Inl err \<Rightarrow>
                       (Inl (StatusError NotFound (notFoundMsg (env s) d err)), [CallGet ctx d])
                   | Inr blob \<Rightarrow>
                       (case UnmarshalActionResult (env s) blob of
                          Inl msg \<Rightarrow> (Inl (PlainError msg), [CallGet ctx d])
                        | Inr rsp \<Rightarrow>
                            (case validateActionResult s ctx rsp st of
                               (Some err, calls) \<Rightarrow>
                                 (Inl (StatusError NotFound (notFoundMsg (env s) d err)),
                                  CallGet ctx d # calls)
                             | (None, calls) \<Rightarrow> (Inr rsp, CallGet ctx d # calls))))))"

definition UpdateActionResult ::
  "('ctx, 's) ActionCacheServer \<Rightarrow> 'ctx \<Rightarrow> UpdateActionResultRequest \<Rightarrow> 's
   \<Rightarrow> (error + ActionResult) \<times> 's \<times> 'ctx call list" where
  "UpdateActionResult s ctx0 req st =
     (case UpdReq_ActionDigest req of
        None \<Rightarrow> (Inl (StatusError InvalidArgument ''ActionDigest is a required field''), st, [])
      | Some ad \<Rightarrow>
          (case UpdReq_ActionResult req of
             None \<Rightarrow>
               (Inl (StatusError InvalidArgument ''ActionResult is a required field''), st, [])
           | Some ar0 \<Rightarrow>
               (case Validate (env s) ad of
                  Some err \<Rightarrow> (Inl err, st, [])
                | None \<Rightarrow>
                    let ctx = AttachUserPrefixToContext (env s) ctx0;
                        ar = setWorkerMetadata (env s) ar0
                    in (case Marshal (env s) ar of
                          Inl msg \<Rightarrow> (Inl (PlainError msg), st, [])
                        | Inr blob \<Rightarrow>
                            (case cache_Set (cache s) ctx (Some ad) blob st of
                               (Some err, st') \<Rightarrow> (Inl err, st', [CallSet ctx (Some ad) blob])
                             | (None, st') \<Rightarrow> (Inr ar, st', [CallSet ctx (Some ad) blob]))))))"

subsection \<open>The validation as the spec words it\<close>

text \<open>
  The spec describes \<open>ValidateActionResult\<close> as a sequence of steps, each with a verdict:
  first the one existence check of the output files; then, for each output directory
  in turn, the fetch and decoding of its tree, the check of the root directory and
  the check of every child directory in turn; the whole stops at the first failure.
  A step is given here by what it returns when it is run against the store: its
  verdict and the cache calls it makes. \<open>dirSteps\<close> lists the steps of one output
  directory (only the fetch when the tree cannot be fetched or decoded),
  \<open>validationSteps\<close> those of a whole result, and \<open>firstFailure\<close> runs a list of
  steps in order up to and including the first one that fails.
\<close>

type_synonym 'ctx step = "error option \<times> 'ctx call list"

definition dirSteps ::
  "('ctx, 's) ActionCacheServer \<Rightarrow> 'ctx \<Rightarrow> 's \<Rightarrow> OutputDirectory \<Rightarrow> 'ctx step list" where
  "dirSteps s ctx st d =
     (case cache_Get (cache s) ctx (TreeDigest d) st of
        Inl err \<Rightarrow> [(Some err, [CallGet ctx (TreeDigest d)])]
      | Inr blob \<Rightarrow>
          (case UnmarshalTree (env s) blob of
             Inl msg \<Rightarrow> [(Some (PlainError msg), [CallGet ctx (TreeDigest d)])]
           | Inr tree \<Rightarrow>
               (None, [CallGet ctx (TreeDigest d)])
                 # checkDirExists s ctx (Root tree) st
                 # map (\<lambda>childDir. checkDirExists s ctx (Some childDir) st) (Children tree)))"

definition validationSteps ::
  "('ctx, 's) ActionCacheServer \<Rightarrow> 'ctx \<Rightarrow> ActionResult \<Rightarrow> 's \<Rightarrow> 'ctx step list" where
  "validationSteps s ctx r st =
     checkFilesExist s ctx (outputFileDigests (OutputFiles r) []) st
       # concat (map (dirSteps s ctx st) (OutputDirectories r))"

fun firstFailure :: "'ctx step list \<Rightarrow> 'ctx step" where
  "firstFailure [] = (None, [])"
| "firstFailure (p # ps) = andThen p (firstFailure ps)"

subsection \<open>Presence of the outputs in the store\<close>

text \<open>
  Modelled from the spec: what it is for the outputs of a result to be present is not
  code of this file. The spec requires of the blob store that \<^verbatim>\<open>ContainsMulti\<close> returns
  an entry for every digest it is given; \<open>storeAnswers\<close> says that the store does so
  and that its entries tell, for each digest, whether it is \<open>present\<close>. The outputs of a
  result are present when every digest of its output files is, and every output
  directory has a tree that the store returns and that decodes, with every digest of
  the files of its root and of its children present.
\<close>

definition storeAnswers ::
  "('ctx, 's) DigestCache \<Rightarrow> 'ctx \<Rightarrow> 's \<Rightarrow> (Digest option \<Rightarrow> bool) \<Rightarrow> bool" where
  "storeAnswers c ctx st present =
     (\<forall>ds. \<exists>m. cache_ContainsMulti c ctx ds st = Inr m \<and> (\<forall>d\<in>set ds. m d = Some (present d)))"

definition filesPresent :: "(Digest option \<Rightarrow> bool) \<Rightarrow> Directory option \<Rightarrow> bool" where
  "filesPresent present dir =
     list_all (\<lambda>f. FileDigest f = None \<or> present (FileDigest f)) (GetFiles dir)"

definition outputsPresent ::
  "('ctx, 's) ActionCacheServer \<Rightarrow> 'ctx \<Rightarrow> 's \<Rightarrow> (Digest option \<Rightarrow> bool) \<Rightarrow> ActionResult
   \<Rightarrow> bool" where
  "outputsPresent s ctx st present r =
     (list_all (\<lambda>f. Digest f = None \<or> present (Digest f)) (OutputFiles r)
      \<and> list_all
          (\<lambda>d. case cache_Get (cache s) ctx (TreeDigest d) st of
                  Inl err \<Rightarrow> False
                | Inr blob \<Rightarrow>
                    (case UnmarshalTree (env s) blob of
                       Inl msg \<Rightarrow> False
                     | Inr tree \<Rightarrow>
                         filesPresent present (Root tree)
                         \<and> list_all (\<lambda>childDir. filesPresent present (Some childDir))
                             (Children tree)))
          (OutputDirectories r))"

subsection \<open>A reference cache and a table-driven environment\<close>

text \<open>
  Modelled from the spec: the implementations of \<^verbatim>\<open>interfaces.DigestCache\<close> are not
  among the sources. The spec describes the blob store as a namespaced key/value store
  addressed by digest, with a single get, a single set and a batched exists that
  answers for every digest it is asked about, the key being scoped by the prefix that
  the context carries and by the prefix of the cache view. \<open>mapCache\<close> is that store
  over a finite map: the context is the caller's prefix, a key is the two prefixes and
  the digest, a miss of \<open>Get\<close> is an error.
\<close>

type_synonym mapStore = "string \<times> Digest option \<rightharpoonup> blob"

definition mapCache :: "string \<Rightarrow> (string, mapStore) DigestCache" where
  "mapCache prefix =
     \<lparr>cache_Get = (\<lambda>ctx d st.
        case st (ctx @ prefix, d) of
          None \<Rightarrow> Inl (StatusError NotFound ''key not found in cache'')
        | Some b \<Rightarrow> Inr b),
      cache_Set = (\<lambda>ctx d b st. (None, st((ctx @ prefix, d) \<mapsto> b))),
      cache_ContainsMulti = (\<lambda>ctx ds st.
        Inr (\<lambda>d. if d \<in> set ds then Some (st (ctx @ prefix, d) \<noteq> None) else None))\<rparr>"

text \<open>
  An environment to run the handlers in: the codec is given by two finite tables of
  (encoding, message) pairs, a digest is valid when its hash is not empty, the caller's
  prefix is appended to the context, a digest prints as its hash and an error as its
  message.
\<close>

definition tableMarshal :: "(blob \<times> 'a) list \<Rightarrow> 'a \<Rightarrow> string + blob" where
  "tableMarshal tbl x =
     (case find (\<lambda>p. snd p = x) tbl of
        None \<Rightarrow> Inl ''proto: message cannot be encoded''
      | Some p \<Rightarrow> Inr (fst p))"

definition tableUnmarshal :: "(blob \<times> 'a) list \<Rightarrow> blob \<Rightarrow> string + 'a" where
  "tableUnmarshal tbl b =
     (case map_of tbl b of
        None \<Rightarrow> Inl ''proto: cannot parse invalid wire-format data''
      | Some x \<Rightarrow> Inr x)"

definition tableEnv ::
  "(blob \<times> ActionResult) list \<Rightarrow> (blob \<times> Tree) list \<Rightarrow> (string, mapStore) Env" where
  "tableEnv results trees =
     \<lparr>GetDigestCache = Some (mapCache []),
      WithPrefix = (\<lambda>c prefix. Some (mapCache prefix)),
      Validate = (\<lambda>d. if Hash d = [] then Some (StatusError InvalidArgument ''empty hash'')
                       else None),
      AttachUserPrefixToContext = (\<lambda>ctx. ctx @ ''user1/''),
      Marshal = tableMarshal results,
      UnmarshalActionResult = tableUnmarshal results,
      UnmarshalTree = tableUnmarshal trees,
      NodeID_base64 = ''bm9kZTAx'',
      fmt_s = (\<lambda>d. case d of None \<Rightarrow> ''<nil>'' | Some x \<Rightarrow> Hash x),
      fmt_q = (\<lambda>d. case d of None \<Rightarrow> ''<nil>'' | Some x \<Rightarrow> Hash x),
      fmt_err = (\<lambda>err. case err of StatusError c m \<Rightarrow> m | PlainError m \<Rightarrow> m)\<rparr>"

definition tableServer ::
  "(blob \<times> ActionResult) list \<Rightarrow> (blob \<times> Tree) list \<Rightarrow> (string, mapStore) ActionCacheServer" where
  "tableServer results trees =
     \<lparr>env = tableEnv results trees, cache = mapCache acCachePrefix\<rparr>"

subsection \<open>Concrete inputs\<close>

text \<open>
  An action digest, two file digests, the digest of an empty file and the digest of a
  tree; a result with one inlined output file and client-supplied metadata, and the
  same result as the write handler stamps it; a result with one output directory; a
  tree whose root holds a present file and whose only child holds an empty file.
\<close>

definition exAction :: Digest where
  "exAction = \<lparr>Hash = ''act1'', SizeBytes = 10\<rparr>"

definition exOut :: Digest where
  "exOut = \<lparr>Hash = ''out1'', SizeBytes = 3\<rparr>"

definition exOther :: Digest where
  "exOther = \<lparr>Hash = ''out2'', SizeBytes = 5\<rparr>"

definition exEmpty :: Digest where
  "exEmpty = \<lparr>Hash = ''e3b0'', SizeBytes = 0\<rparr>"

definition exTreeDigest :: Digest where
  "exTreeDigest = \<lparr>Hash = ''tree1'', SizeBytes = 20\<rparr>"

definition exResult :: ActionResult where
  "exResult =
     \<lparr>OutputFiles = [\<lparr>Path = ''a.o'', Digest = Some exOut, Contents = [1, 2, 3]\<rparr>],
      OutputDirectories = [],
      ExecutionMetadata =
        Some \<lparr>Worker = ''client'', OtherFields = [(''queued_timestamp'', [7])]\<rparr>\<rparr>"

definition exStamped :: ActionResult where
  "exStamped =
     \<lparr>OutputFiles = [\<lparr>Path = ''a.o'', Digest = Some exOut, Contents = [1, 2, 3]\<rparr>],
      OutputDirectories = [],
      ExecutionMetadata = Some \<lparr>Worker = ''bm9kZTAx'', OtherFields = []\<rparr>\<rparr>"

definition exDirResult :: ActionResult where
  "exDirResult =
     \<lparr>OutputFiles = [],
      OutputDirectories = [\<lparr>DirPath = ''out'', TreeDigest = Some exTreeDigest\<rparr>],
      ExecutionMetadata = None\<rparr>"

definition exTree :: Tree where
  "exTree =
     \<lparr>Root = Some \<lparr>Files = [\<lparr>FileDigest = Some exOut\<rparr>, \<lparr>FileDigest = None\<rparr>]\<rparr>,
      Children = [\<lparr>Files = [\<lparr>FileDigest = Some exEmpty\<rparr>]\<rparr>]\<rparr>"

text \<open>
  A second tree, with an empty root and three children of which the second refers to
  \<open>exOther\<close>, and a result with two output directories, the second tree first.
\<close>

definition exTreeDigest2 :: Digest where
  "exTreeDigest2 = \<lparr>Hash = ''tree2'', SizeBytes = 30\<rparr>"

definition exTree2 :: Tree where
  "exTree2 =
     \<lparr>Root = Some \<lparr>Files = []\<rparr>,
      Children = [\<lparr>Files = [\<lparr>FileDigest = Some exOut\<rparr>]\<rparr>,
                  \<lparr>Files = [\<lparr>FileDigest = Some exOther\<rparr>]\<rparr>,
                  \<lparr>Files = [\<lparr>FileDigest = Some exOut\<rparr>]\<rparr>]\<rparr>"

definition exDirResult2 :: ActionResult where
  "exDirResult2 =
     \<lparr>OutputFiles = [],
      OutputDirectories = [\<lparr>DirPath = ''gen'', TreeDigest = Some exTreeDigest2\<rparr>,
                           \<lparr>DirPath = ''out'', TreeDigest = Some exTreeDigest\<rparr>],
      ExecutionMetadata = None\<rparr>"

text \<open>
  A result with four output files: one with inlined content and a digest of size 3,
  one with no inlined content, one whose digest has size 0 and one with no digest.
\<close>

definition exMixed :: ActionResult where
  "exMixed =
     \<lparr>OutputFiles = [\<lparr>Path = ''a.o'', Digest = Some exOut, Contents = [1, 2, 3]\<rparr>,
                    \<lparr>Path = ''b.o'', Digest = Some exOther, Contents = []\<rparr>,
                    \<lparr>Path = ''c.o'', Digest = Some exEmpty, Contents = [4]\<rparr>,
                    \<lparr>Path = ''d.o'', Digest = None, Contents = [5]\<rparr>],
      OutputDirectories = [],
      ExecutionMetadata = None\<rparr>"

text \<open>
  The server over the codec tables that encode \<open>exStamped\<close> as the byte 10,
  \<open>exDirResult\<close> as 11, \<open>exDirResult2\<close> as 12, \<open>exTree\<close> as 20 and \<open>exTree2\<close> as 21.
\<close>

definition exServer :: "(string, mapStore) ActionCacheServer" where
  "exServer =
     tableServer [([10], exStamped), ([11], exDirResult), ([12], exDirResult2)]
       [([20], exTree), ([21], exTree2)]"

section \<open>Properties\<close>

subsection \<open>The constructor\<close>

text \<open>
  The servers that the examples run are what \<open>NewActionCacheServer\<close> builds from the
  table-driven environment: the environment itself and its cache under the prefix
  \<^verbatim>\<open>ac-\<close>. With no cache in the environment the constructor does not return.
\<close>

lemma NewActionCacheServer_tableEnv:
  "NewActionCacheServer (tableEnv results trees) = Some (Inr (tableServer results trees))"
  by (simp add: NewActionCacheServer_def tableEnv_def tableServer_def)

lemma NewActionCacheServer_nil_cache:
  "NewActionCacheServer ((tableEnv results trees)\<lparr>GetDigestCache := None\<rparr>) = None"
  by (simp add: NewActionCacheServer_def)

subsection \<open>checkFilesExist\<close>

lemma checkFound_find:
  "checkFound e m ds =
     (case find (\<lambda>d. m d \<noteq> Some True) ds of
        None \<Rightarrow> None
      | Some d \<Rightarrow> Some (if m d = None then inconsistentErr e d else fileNotFoundErr e d))"
  by (induction ds) (auto split: option.splits)

lemma checkFound_None_iff:
  "(checkFound e m ds = None) = (\<forall>d\<in>set ds. m d = Some True)"
  by (induction ds) (auto split: option.splits)

lemma checkFound_all_mapped:
  "\<forall>d\<in>set ds. m d \<noteq> None \<Longrightarrow> \<exists>d\<in>set ds. m d = Some False \<Longrightarrow>
   \<exists>d\<in>set ds. m d = Some False \<and> checkFound e m ds = Some (fileNotFoundErr e d)"
  by (induction ds) (auto split: option.splits)

lemma checkFound_first_missing:
  "\<forall>x\<in>set pre. m x = Some True \<Longrightarrow> m d = None \<Longrightarrow>
   checkFound e m (pre @ d # post) = Some (inconsistentErr e d)"
  by (induction pre) (auto split: option.splits)

lemma checkFilesExist_calls:
  "snd (checkFilesExist s ctx ds st) = [CallContainsMulti ctx ds]"
  by (simp add: checkFilesExist_def split: sum.splits)

lemma checkFilesExist_answered:
  "cache_ContainsMulti (cache s) ctx ds st = Inr m \<Longrightarrow>
   fst (checkFilesExist s ctx ds st) = checkFound (env s) m ds"
  by (simp add: checkFilesExist_def)

text \<open>
  Claim C3, as the code has it. When \<^verbatim>\<open>ContainsMulti\<close> answers with a map,
  \<open>checkFilesExist\<close> walks the requested digests in order and stops at the first one
  that the map does not give as present: the error is \<open>Internal\<close> when that digest has
  no entry and \<open>NotFound\<close>, naming it, when its entry says not found. Hence
  \<^item> when every requested digest has an entry and some entry says not found, the
    result is \<open>NotFound\<close> naming a digest whose entry says not found;
  \<^item> when a requested digest has no entry and all digests before it are given as
    present, the result is \<open>Internal\<close> naming that digest;
  \<^item> the result is nil exactly when every requested digest is given as present.
\<close>

theorem checkFilesExist_first_not_present:
  "cache_ContainsMulti (cache s) ctx digests st = Inr foundMap \<Longrightarrow>
   fst (checkFilesExist s ctx digests st) =
     (case find (\<lambda>d. foundMap d \<noteq> Some True) digests of
        None \<Rightarrow> None
      | Some d \<Rightarrow>
          Some (if foundMap d = None then inconsistentErr (env s) d
                else fileNotFoundErr (env s) d))
   \<and> ((\<forall>d\<in>set digests. foundMap d \<noteq> None) \<and> (\<exists>d\<in>set digests. foundMap d = Some False)
        \<longrightarrow> (\<exists>d\<in>set digests. foundMap d = Some False
               \<and> fst (checkFilesExist s ctx digests st) = Some (fileNotFoundErr (env s) d)))
   \<and> (\<forall>pre d post. digests = pre @ d # post \<and> (\<forall>x\<in>set pre. foundMap x = Some True)
          \<and> foundMap d = None
        \<longrightarrow> fst (checkFilesExist s ctx digests st) = Some (inconsistentErr (env s) d))
   \<and> ((fst (checkFilesExist s ctx digests st) = None)
        = (\<forall>d\<in>set digests. foundMap d = Some True))"
proof -
  assume a: "cache_ContainsMulti (cache s) ctx digests st = Inr foundMap"
  have r: "fst (checkFilesExist s ctx digests st) = checkFound (env s) foundMap digests"
    using a by (rule checkFilesExist_answered)
  have c1: "checkFound (env s) foundMap digests =
     (case find (\<lambda>d. foundMap d \<noteq> Some True) digests of
        None \<Rightarrow> None
      | Some d \<Rightarrow>
          Some (if foundMap d = None then inconsistentErr (env s) d
                else fileNotFoundErr (env s) d))"
    by (rule checkFound_find)
  have c2: "(\<forall>d\<in>set digests. foundMap d \<noteq> None) \<and> (\<exists>d\<in>set digests. foundMap d = Some False)
        \<longrightarrow> (\<exists>d\<in>set digests. foundMap d = Some False
               \<and> checkFound (env s) foundMap digests = Some (fileNotFoundErr (env s) d))"
    using checkFound_all_mapped [of digests foundMap "env s"] by blast
  have c3: "\<forall>pre d post. digests = pre @ d # post \<and> (\<forall>x\<in>set pre. foundMap x = Some True)
          \<and> foundMap d = None
        \<longrightarrow> checkFound (env s) foundMap digests = Some (inconsistentErr (env s) d)"
    using checkFound_first_missing by blast
  have c4: "(checkFound (env s) foundMap digests = None)
        = (\<forall>d\<in>set digests. foundMap d = Some True)"
    by (rule checkFound_None_iff)
  show ?thesis
    unfolding r using c1 c2 c3 c4 by blast
qed

theorem checkFilesExist_first_not_present_witness:
  "cache_ContainsMulti (cache (tableServer [] [])) ''user1/''
      [Some \<lparr>Hash = ''aa'', SizeBytes = 1\<rparr>, Some \<lparr>Hash = ''bb'', SizeBytes = 2\<rparr>]
      [(''user1/ac-'', Some \<lparr>Hash = ''aa'', SizeBytes = 1\<rparr>) \<mapsto> [1]]
    = Inr (\<lambda>d. if d \<in> set [Some \<lparr>Hash = ''aa'', SizeBytes = 1\<rparr>,
                              Some \<lparr>Hash = ''bb'', SizeBytes = 2\<rparr>]
                then Some ([(''user1/ac-'', Some \<lparr>Hash = ''aa'', SizeBytes = 1\<rparr>) \<mapsto> [1::8 word]]
                             (''user1/ac-'', d) \<noteq> None)
                else None)
   \<and> fst (checkFilesExist (tableServer [] []) ''user1/''
        [Some \<lparr>Hash = ''aa'', SizeBytes = 1\<rparr>, Some \<lparr>Hash = ''bb'', SizeBytes = 2\<rparr>]
        [(''user1/ac-'', Some \<lparr>Hash = ''aa'', SizeBytes = 1\<rparr>) \<mapsto> [1]])
     = Some (StatusError NotFound
         (''ActionResult output file: '' @ [CHR 0x27] @ ''bb'' @ [CHR 0x27]
            @ '' not found in cache''))"
proof -
  let ?s = "tableServer [] []"
  let ?ds = "[Some \<lparr>Hash = ''aa'', SizeBytes = 1\<rparr>, Some \<lparr>Hash = ''bb'', SizeBytes = 2\<rparr>]"
  let ?st = "[(''user1/ac-'', Some \<lparr>Hash = ''aa'', SizeBytes = 1\<rparr>) \<mapsto> [1::8 word]]"
  let ?m = "\<lambda>d. if d \<in> set ?ds then Some (?st (''user1/ac-'', d) \<noteq> None) else None"
  have h: "cache_ContainsMulti (cache ?s) ''user1/'' ?ds ?st = Inr ?m"
    by (simp add: tableServer_def mapCache_def acCachePrefix_def cong del: if_weak_cong)
  have "fst (checkFilesExist ?s ''user1/'' ?ds ?st) =
     (case find (\<lambda>d. ?m d \<noteq> Some True) ?ds of
        None \<Rightarrow> None
      | Some d \<Rightarrow>
          Some (if ?m d = None then inconsistentErr (env ?s) d
                else fileNotFoundErr (env ?s) d))"
    using checkFilesExist_first_not_present [OF h] by blast
  then have "fst (checkFilesExist ?s ''user1/'' ?ds ?st)
      = Some (fileNotFoundErr (env ?s) (Some \<lparr>Hash = ''bb'', SizeBytes = 2\<rparr>))"
    by simp
  then show ?thesis using h
    by (simp add: fileNotFoundErr_def tableServer_def tableEnv_def)
qed

text \<open>
  Claim C3 as it is written fails: an answer that lacks an entry for a requested digest
  does not always give \<open>Internal\<close>. Here the cache answers for \<open>aa\<close> only, saying not
  found, and has no entry for the requested \<open>bb\<close>; the loop stops at \<open>aa\<close> with
  \<open>NotFound\<close>.
\<close>

theorem checkFilesExist_missing_entry_counterexample:
  "cache_ContainsMulti
      (cache ((tableServer [] [])\<lparr>cache := (mapCache acCachePrefix)
         \<lparr>cache_ContainsMulti :=
            (\<lambda>ctx ds st. Inr [Some \<lparr>Hash = ''aa'', SizeBytes = 1\<rparr> \<mapsto> False])\<rparr>\<rparr>))
      ''user1/''
      [Some \<lparr>Hash = ''aa'', SizeBytes = 1\<rparr>, Some \<lparr>Hash = ''bb'', SizeBytes = 2\<rparr>]
      Map.empty
    = Inr [Some \<lparr>Hash = ''aa'', SizeBytes = 1\<rparr> \<mapsto> False]
   \<and> [Some \<lparr>Hash = ''aa'', SizeBytes = 1\<rparr> \<mapsto> False]
         (Some \<lparr>Hash = ''bb'', SizeBytes = 2\<rparr>) = None
   \<and> fst (checkFilesExist
        ((tableServer [] [])\<lparr>cache := (mapCache acCachePrefix)
           \<lparr>cache_ContainsMulti :=
              (\<lambda>ctx ds st. Inr [Some \<lparr>Hash = ''aa'', SizeBytes = 1\<rparr> \<mapsto> False])\<rparr>\<rparr>)
        ''user1/''
        [Some \<lparr>Hash = ''aa'', SizeBytes = 1\<rparr>, Some \<lparr>Hash = ''bb'', SizeBytes = 2\<rparr>]
        Map.empty)
     = Some (StatusError NotFound
         (''ActionResult output file: '' @ [CHR 0x27] @ ''aa'' @ [CHR 0x27]
            @ '' not found in cache''))"
  by (simp add: checkFilesExist_def fileNotFoundErr_def tableServer_def tableEnv_def)

subsection \<open>The handlers\<close>

lemmas ex_defs = exServer_def tableServer_def tableEnv_def mapCache_def acCachePrefix_def
  tableMarshal_def tableUnmarshal_def

lemmas ex_values = exAction_def exOut_def exOther_def exEmpty_def exTreeDigest_def
  exResult_def exStamped_def exDirResult_def exTree_def exTreeDigest2_def exTree2_def
  exDirResult2_def

text \<open>
  Claim C9. \<open>GetActionResult\<close> with a nil \<^verbatim>\<open>ActionDigest\<close> returns \<open>InvalidArgument\<close> and
  makes no call on the cache. \<open>UpdateActionResult\<close> with a nil \<^verbatim>\<open>ActionDigest\<close>, or
  with a digest and a nil \<^verbatim>\<open>ActionResult\<close>, returns \<open>InvalidArgument\<close>, makes no call on
  the cache and leaves the store as it was.
\<close>

theorem nil_arguments_rejected_before_store:
  "(GetReq_ActionDigest req = None \<longrightarrow>
      GetActionResult s ctx req st =
        (Inl (StatusError InvalidArgument ''ActionDigest is a required field''), []))
   \<and> (UpdReq_ActionDigest ureq = None \<longrightarrow>
      UpdateActionResult s ctx ureq st =
        (Inl (StatusError InvalidArgument ''ActionDigest is a required field''), st, []))
   \<and> (UpdReq_ActionDigest ureq \<noteq> None \<and> UpdReq_ActionResult ureq = None \<longrightarrow>
      UpdateActionResult s ctx ureq st =
        (Inl (StatusError InvalidArgument ''ActionResult is a required field''), st, []))"
  by (auto simp: GetActionResult_def UpdateActionResult_def split: option.splits)

theorem nil_arguments_rejected_before_store_witness:
  "GetActionResult exServer ''c/'' \<lparr>GetReq_ActionDigest = None\<rparr> Map.empty =
     (Inl (StatusError InvalidArgument ''ActionDigest is a required field''), [])
   \<and> UpdateActionResult exServer ''c/''
        \<lparr>UpdReq_ActionDigest = None, UpdReq_ActionResult = Some exResult\<rparr> Map.empty =
     (Inl (StatusError InvalidArgument ''ActionDigest is a required field''), Map.empty, [])
   \<and> UpdateActionResult exServer ''c/''
        \<lparr>UpdReq_ActionDigest = Some exAction, UpdReq_ActionResult = None\<rparr> Map.empty =
     (Inl (StatusError InvalidArgument ''ActionResult is a required field''), Map.empty, [])"
  using nil_arguments_rejected_before_store
      [where req = "\<lparr>GetReq_ActionDigest = None\<rparr>" and s = exServer and ctx = "''c/''"
         and st = Map.empty
         and ureq = "\<lparr>UpdReq_ActionDigest = None, UpdReq_ActionResult = Some exResult\<rparr>"]
    nil_arguments_rejected_before_store
      [where req = "\<lparr>GetReq_ActionDigest = None\<rparr>" and s = exServer and ctx = "''c/''"
         and st = Map.empty
         and ureq = "\<lparr>UpdReq_ActionDigest = Some exAction, UpdReq_ActionResult = None\<rparr>"]
  by simp

text \<open>
  Claim C7, as the code has it. When the blob fetched for a valid action digest does
  not deserialize, \<open>GetActionResult\<close> returns the decoder's own error, unwrapped, after
  the single \<open>Get\<close>. The handler gives that error no status: the result carries no
  status code at all, so it is not the \<open>NotFound\<close> that the handler builds for a miss,
  and it is not an \<open>Internal\<close> status either.
\<close>

theorem unmarshal_failure_returned_unwrapped:
  "GetReq_ActionDigest req = Some ad \<Longrightarrow> Validate (env s) ad = None \<Longrightarrow>
   cache_Get (cache s) (AttachUserPrefixToContext (env s) ctx) (Some ad) st = Inr blob \<Longrightarrow>
   UnmarshalActionResult (env s) blob = Inl msg \<Longrightarrow>
   GetActionResult s ctx req st =
     (Inl (PlainError msg), [CallGet (AttachUserPrefixToContext (env s) ctx) (Some ad)])
   \<and> (\<forall>err. fst (GetActionResult s ctx req st) = Inl err \<longrightarrow> statusCode err = None)
   \<and> (\<forall>c m. fst (GetActionResult s ctx req st) \<noteq> Inl (StatusError c m))"
  by (simp add: GetActionResult_def)

theorem unmarshal_failure_returned_unwrapped_witness:
  "GetActionResult exServer ''c/'' \<lparr>GetReq_ActionDigest = Some exAction\<rparr>
     [(''c/user1/ac-'', Some exAction) \<mapsto> [9]]
   = (Inl (PlainError ''proto: cannot parse invalid wire-format data''),
      [CallGet ''c/user1/'' (Some exAction)])
   \<and> statusCode (PlainError ''proto: cannot parse invalid wire-format data'') = None"
proof -
  let ?st = "[(''c/user1/ac-'', Some exAction) \<mapsto> [9::8 word]]"
  let ?req = "\<lparr>GetReq_ActionDigest = Some exAction\<rparr>"
  have h1: "GetReq_ActionDigest ?req = Some exAction"
    by simp
  have h2: "Validate (env exServer) exAction = None"
    by (simp add: ex_defs exAction_def)
  have ctx: "AttachUserPrefixToContext (env exServer) ''c/'' = ''c/user1/''"
    by (simp add: ex_defs)
  have h3: "cache_Get (cache exServer) (AttachUserPrefixToContext (env exServer) ''c/'')
              (Some exAction) ?st = Inr [9]"
    by (simp add: ex_defs)
  have h4: "UnmarshalActionResult (env exServer) [9]
              = Inl ''proto: cannot parse invalid wire-format data''"
    by (simp add: ex_defs)
  note t = unmarshal_failure_returned_unwrapped [OF h1 h2 h3 h4]
  have a: "GetActionResult exServer ''c/'' ?req ?st
             = (Inl (PlainError ''proto: cannot parse invalid wire-format data''),
                [CallGet ''c/user1/'' (Some exAction)])"
    using t unfolding ctx by (rule conjunct1)
  have "fst (GetActionResult exServer ''c/'' ?req ?st)
          = Inl (PlainError ''proto: cannot parse invalid wire-format data'')"
    using a by simp
  with t have b: "statusCode (PlainError ''proto: cannot parse invalid wire-format data'') = None"
    by blast
  from a b show ?thesis by (rule conjI)
qed

text \<open>
  Claim C7 as it is written fails: the error returned for a blob that does not
  deserialize is not an \<open>Internal\<close> error. The store holds the byte 9 under the action
  digest, which is no encoding of a result; the handler returns the decoder's plain
  error, which carries no status code.
\<close>

theorem unmarshal_failure_not_Internal_counterexample:
  "fst (GetActionResult exServer ''c/'' \<lparr>GetReq_ActionDigest = Some exAction\<rparr>
          [(''c/user1/ac-'', Some exAction) \<mapsto> [9]])
     = Inl (PlainError ''proto: cannot parse invalid wire-format data'')
   \<and> statusCode (PlainError ''proto: cannot parse invalid wire-format data'') \<noteq> Some Internal"
  by (simp add: GetActionResult_def ex_defs exAction_def)

text \<open>
  Claim C6. On the read path, for a valid action digest: an error of the store's \<open>Get\<close>
  for the action-result blob, and any error of \<open>validateActionResult\<close> on the decoded
  result (its \<open>NotFound\<close>, its \<open>Internal\<close>, or an error of the store that it passes on),
  are returned as a \<open>NotFound\<close> status whose message is
  \<^verbatim>\<open>ActionResult (<digest>) not found: <error>\<close> with the action digest of the request;
  the store's error itself is never the result.
\<close>

theorem read_failures_reported_NotFound:
  "GetReq_ActionDigest req = Some ad \<Longrightarrow> Validate (env s) ad = None \<Longrightarrow>
   (\<forall>err. cache_Get (cache s) (AttachUserPrefixToContext (env s) ctx) (Some ad) st = Inl err \<longrightarrow>
      GetActionResult s ctx req st =
        (Inl (StatusError NotFound
           (''ActionResult ('' @ fmt_s (env s) (Some ad) @ '') not found: '' @ fmt_err (env s) err)),
         [CallGet (AttachUserPrefixToContext (env s) ctx) (Some ad)]))
   \<and> (\<forall>blob rsp err.
        cache_Get (cache s) (AttachUserPrefixToContext (env s) ctx) (Some ad) st = Inr blob
        \<and> UnmarshalActionResult (env s) blob = Inr rsp
        \<and> fst (validateActionResult s (AttachUserPrefixToContext (env s) ctx) rsp st) = Some err \<longrightarrow>
      fst (GetActionResult s ctx req st) =
        Inl (StatusError NotFound
           (''ActionResult ('' @ fmt_s (env s) (Some ad) @ '') not found: '' @ fmt_err (env s) err)))"
  by (auto simp: GetActionResult_def notFoundMsg_def Let_def split: prod.splits option.splits)

theorem read_failures_reported_NotFound_witness:
  "GetActionResult exServer ''c/'' \<lparr>GetReq_ActionDigest = Some exAction\<rparr> Map.empty =
     (Inl (StatusError NotFound ''ActionResult (act1) not found: key not found in cache''),
      [CallGet ''c/user1/'' (Some exAction)])
   \<and> fst (GetActionResult exServer ''c/'' \<lparr>GetReq_ActionDigest = Some exAction\<rparr>
            [(''c/user1/ac-'', Some exAction) \<mapsto> [10]]) =
     Inl (StatusError NotFound
       (''ActionResult (act1) not found: ActionResult output file: '' @ [CHR 0x27] @ ''out1''
          @ [CHR 0x27] @ '' not found in cache''))"
proof -
  let ?req = "\<lparr>GetReq_ActionDigest = Some exAction\<rparr>"
  let ?st = "[(''c/user1/ac-'', Some exAction) \<mapsto> [10::8 word]]"
  have h1: "GetReq_ActionDigest ?req = Some exAction"
    by simp
  have h2: "Validate (env exServer) exAction = None"
    by (simp add: ex_defs exAction_def)
  have ctx: "AttachUserPrefixToContext (env exServer) ''c/'' = ''c/user1/''"
    by (simp add: ex_defs)
  have miss: "cache_Get (cache exServer) ''c/user1/'' (Some exAction) Map.empty
                = Inl (StatusError NotFound ''key not found in cache'')"
    by (simp add: ex_defs)
  have hit: "cache_Get (cache exServer) ''c/user1/'' (Some exAction) ?st = Inr [10]"
    by (simp add: ex_defs)
  have dec: "UnmarshalActionResult (env exServer) [10] = Inr exStamped"
    by (simp add: ex_defs)
  have val: "fst (validateActionResult exServer ''c/user1/'' exStamped ?st)
               = Some (fileNotFoundErr (env exServer) (Some exOut))"
    by (simp add: validateActionResult_def andThen_def checkFilesExist_def GetSizeBytes_def
          ex_defs ex_values)
  have a: "GetActionResult exServer ''c/'' ?req Map.empty =
        (Inl (StatusError NotFound
           (''ActionResult ('' @ fmt_s (env exServer) (Some exAction) @ '') not found: ''
              @ fmt_err (env exServer) (StatusError NotFound ''key not found in cache''))),
         [CallGet ''c/user1/'' (Some exAction)])"
    using read_failures_reported_NotFound [OF h1 h2, of "''c/''" Map.empty] miss
    unfolding ctx by blast
  have b: "fst (GetActionResult exServer ''c/'' ?req ?st) =
        Inl (StatusError NotFound
           (''ActionResult ('' @ fmt_s (env exServer) (Some exAction) @ '') not found: ''
              @ fmt_err (env exServer) (fileNotFoundErr (env exServer) (Some exOut))))"
    using read_failures_reported_NotFound [OF h1 h2, of "''c/''" ?st] hit dec val
    unfolding ctx by blast
  from a b show ?thesis
    by (simp add: ex_defs ex_values fileNotFoundErr_def)
qed

lemma update_cong:
  "env s' = env s \<Longrightarrow> cache_Set (cache s') = cache_Set (cache s) \<Longrightarrow>
   UpdateActionResult s' ctx req st = UpdateActionResult s ctx req st"
  unfolding UpdateActionResult_def by (simp only:)

lemma update_reads_irrelevant:
  "UpdateActionResult (s\<lparr>cache := (cache s)\<lparr>cache_Get := g, cache_ContainsMulti := m\<rparr>\<rparr>) ctx req st
     = UpdateActionResult s ctx req st"
  by (rule update_cong) simp_all

lemma update_calls_are_sets:
  "c \<in> set (snd (snd (UpdateActionResult s ctx req st))) \<Longrightarrow> \<exists>x d b. c = CallSet x d b"
  by (auto simp: UpdateActionResult_def Let_def split: option.splits sum.splits prod.splits)

lemma update_depends_on_set_only:
  assumes "\<forall>d b. fst (cache_Set (cache s) (AttachUserPrefixToContext (env s) ctx) d b st1)
             = fst (cache_Set (cache s) (AttachUserPrefixToContext (env s) ctx) d b st2)"
  shows "fst (UpdateActionResult s ctx req st1) = fst (UpdateActionResult s ctx req st2)
        \<and> snd (snd (UpdateActionResult s ctx req st1)) = snd (snd (UpdateActionResult s ctx req st2))"
proof (cases "UpdReq_ActionDigest req")
  case None
  then show ?thesis by (simp add: UpdateActionResult_def)
next
  case (Some ad)
  note ad = Some
  show ?thesis
  proof (cases "UpdReq_ActionResult req")
    case None
    then show ?thesis using ad by (simp add: UpdateActionResult_def)
  next
    case (Some ar0)
    show ?thesis
    proof (cases "Validate (env s) ad")
      case (Some err)
      then show ?thesis using ad \<open>UpdReq_ActionResult req = Some ar0\<close>
        by (simp add: UpdateActionResult_def)
    next
      case None
      show ?thesis
      proof (cases "Marshal (env s) (setWorkerMetadata (env s) ar0)")
        case (Inl msg)
        then show ?thesis using ad \<open>UpdReq_ActionResult req = Some ar0\<close> None
          by (simp add: UpdateActionResult_def)
      next
        case (Inr blob)
        let ?ctx = "AttachUserPrefixToContext (env s) ctx"
        have e: "fst (cache_Set (cache s) ?ctx (Some ad) blob st1)
                 = fst (cache_Set (cache s) ?ctx (Some ad) blob st2)"
          using assms by blast
        obtain r1 t1 where p1: "cache_Set (cache s) ?ctx (Some ad) blob st1 = (r1, t1)"
          by (cases "cache_Set (cache s) ?ctx (Some ad) blob st1")
        obtain r2 t2 where p2: "cache_Set (cache s) ?ctx (Some ad) blob st2 = (r2, t2)"
          by (cases "cache_Set (cache s) ?ctx (Some ad) blob st2")
        from e p1 p2 have "r1 = r2" by simp
        then show ?thesis using ad \<open>UpdReq_ActionResult req = Some ar0\<close> None Inr p1 p2
          by (cases r2) (simp_all add: UpdateActionResult_def)
      qed
    qed
  qed
qed

lemma update_success_path:
  "UpdReq_ActionDigest req = Some ad \<Longrightarrow> UpdReq_ActionResult req = Some ar0 \<Longrightarrow>
   Validate (env s) ad = None \<Longrightarrow>
   Marshal (env s) (setWorkerMetadata (env s) ar0) = Inr blob \<Longrightarrow>
   cache_Set (cache s) (AttachUserPrefixToContext (env s) ctx) (Some ad) blob st = (None, st') \<Longrightarrow>
   UpdateActionResult s ctx req st =
     (Inr (setWorkerMetadata (env s) ar0), st',
      [CallSet (AttachUserPrefixToContext (env s) ctx) (Some ad) blob])"
  by (simp add: UpdateActionResult_def)

lemma exServer_update:
  "UpdateActionResult exServer ''c/''
      \<lparr>UpdReq_ActionDigest = Some exAction, UpdReq_ActionResult = Some exResult\<rparr> st
   = (Inr exStamped, st((''c/user1/ac-'', Some exAction) \<mapsto> [10]),
      [CallSet ''c/user1/'' (Some exAction) [10]])"
  by (simp add: UpdateActionResult_def setWorkerMetadata_def ex_defs ex_values)

text \<open>
  Claim C10. Whatever \<^verbatim>\<open>ExecutionMetadata\<close> the client sent, the result that
  \<open>UpdateActionResult\<close> returns is the client's result with the metadata replaced by a
  new message that holds the server's worker identifier and no other field, and every
  \<open>Set\<close> the handler makes stores the encoding of exactly that result.
\<close>

theorem update_replaces_metadata:
  "UpdReq_ActionResult req = Some ar0 \<Longrightarrow>
   (\<forall>ar. fst (UpdateActionResult s ctx req st) = Inr ar \<longrightarrow>
      ar = ar0\<lparr>ExecutionMetadata := Some \<lparr>Worker = NodeID_base64 (env s), OtherFields = []\<rparr>\<rparr>)
   \<and> (\<forall>c\<in>set (snd (snd (UpdateActionResult s ctx req st))).
        \<exists>ad blob. c = CallSet (AttachUserPrefixToContext (env s) ctx) (Some ad) blob
          \<and> Marshal (env s)
               (ar0\<lparr>ExecutionMetadata := Some \<lparr>Worker = NodeID_base64 (env s), OtherFields = []\<rparr>\<rparr>)
              = Inr blob)"
  by (auto simp: UpdateActionResult_def setWorkerMetadata_def Let_def
           split: option.splits sum.splits prod.splits)

theorem update_replaces_metadata_witness:
  "fst (UpdateActionResult exServer ''c/''
      \<lparr>UpdReq_ActionDigest = Some exAction, UpdReq_ActionResult = Some exResult\<rparr> Map.empty)
     = Inr (exResult\<lparr>ExecutionMetadata := Some \<lparr>Worker = ''bm9kZTAx'', OtherFields = []\<rparr>\<rparr>)
   \<and> ExecutionMetadata exResult
       = Some \<lparr>Worker = ''client'', OtherFields = [(''queued_timestamp'', [7])]\<rparr>
   \<and> snd (snd (UpdateActionResult exServer ''c/''
      \<lparr>UpdReq_ActionDigest = Some exAction, UpdReq_ActionResult = Some exResult\<rparr> Map.empty))
     = [CallSet ''c/user1/'' (Some exAction) [10]]
   \<and> Marshal (env exServer)
        (exResult\<lparr>ExecutionMetadata := Some \<lparr>Worker = ''bm9kZTAx'', OtherFields = []\<rparr>\<rparr>)
     = Inr [10]"
proof -
  let ?req = "\<lparr>UpdReq_ActionDigest = Some exAction, UpdReq_ActionResult = Some exResult\<rparr>"
  have h: "UpdReq_ActionResult ?req = Some exResult"
    by simp
  have n: "NodeID_base64 (env exServer) = ''bm9kZTAx''"
    by (simp add: ex_defs)
  have ctx: "AttachUserPrefixToContext (env exServer) ''c/'' = ''c/user1/''"
    by (simp add: ex_defs)
  have r: "fst (UpdateActionResult exServer ''c/'' ?req Map.empty) = Inr exStamped"
    and c: "snd (snd (UpdateActionResult exServer ''c/'' ?req Map.empty))
              = [CallSet ''c/user1/'' (Some exAction) [10]]"
    by (simp_all add: exServer_update)
  from update_replaces_metadata [OF h, of exServer "''c/''" Map.empty] r c
  show ?thesis
    unfolding n ctx by (simp add: ex_values)
qed

text \<open>
  Claim C8. The write path performs no existence validation:
  \<^item> replacing the cache's \<open>Get\<close> and \<open>ContainsMulti\<close> by anything leaves the result, the
    new store and the calls of \<open>UpdateActionResult\<close> unchanged;
  \<^item> every call it makes on the cache is a \<open>Set\<close>;
  \<^item> two stores on which \<open>Set\<close> reports the same errors give the same result and the
    same calls, whatever blobs they hold;
  \<^item> for a well-formed request (digest valid, result encodable, \<open>Set\<close> succeeding) it
    returns the stamped result after one \<open>Set\<close> of its encoding under the action digest,
    in the caller's scoped context.
\<close>

theorem update_ignores_presence:
  "UpdateActionResult (s\<lparr>cache := (cache s)\<lparr>cache_Get := g, cache_ContainsMulti := m\<rparr>\<rparr>) ctx req st
     = UpdateActionResult s ctx req st
   \<and> (\<forall>c\<in>set (snd (snd (UpdateActionResult s ctx req st))). \<exists>x d b. c = CallSet x d b)
   \<and> ((\<forall>d b. fst (cache_Set (cache s) (AttachUserPrefixToContext (env s) ctx) d b st1)
             = fst (cache_Set (cache s) (AttachUserPrefixToContext (env s) ctx) d b st2)) \<longrightarrow>
        fst (UpdateActionResult s ctx req st1) = fst (UpdateActionResult s ctx req st2)
        \<and> snd (snd (UpdateActionResult s ctx req st1)) = snd (snd (UpdateActionResult s ctx req st2)))
   \<and> (\<forall>ad ar0 blob st'.
        UpdReq_ActionDigest req = Some ad \<and> UpdReq_ActionResult req = Some ar0
        \<and> Validate (env s) ad = None
        \<and> Marshal (env s) (setWorkerMetadata (env s) ar0) = Inr blob
        \<and> cache_Set (cache s) (AttachUserPrefixToContext (env s) ctx) (Some ad) blob st = (None, st') \<longrightarrow>
        UpdateActionResult s ctx req st =
          (Inr (setWorkerMetadata (env s) ar0), st',
           [CallSet (AttachUserPrefixToContext (env s) ctx) (Some ad) blob]))"
proof -
  have a: "UpdateActionResult (s\<lparr>cache := (cache s)\<lparr>cache_Get := g, cache_ContainsMulti := m\<rparr>\<rparr>) ctx req st
     = UpdateActionResult s ctx req st"
    by (rule update_reads_irrelevant)
  have b: "\<forall>c\<in>set (snd (snd (UpdateActionResult s ctx req st))). \<exists>x d b. c = CallSet x d b"
    by (rule ballI) (rule update_calls_are_sets)
  have c: "(\<forall>d b. fst (cache_Set (cache s) (AttachUserPrefixToContext (env s) ctx) d b st1)
             = fst (cache_Set (cache s) (AttachUserPrefixToContext (env s) ctx) d b st2)) \<longrightarrow>
        fst (UpdateActionResult s ctx req st1) = fst (UpdateActionResult s ctx req st2)
        \<and> snd (snd (UpdateActionResult s ctx req st1)) = snd (snd (UpdateActionResult s ctx req st2))"
    by (rule impI) (rule update_depends_on_set_only)
  have d: "\<forall>ad ar0 blob st'.
        UpdReq_ActionDigest req = Some ad \<and> UpdReq_ActionResult req = Some ar0
        \<and> Validate (env s) ad = None
        \<and> Marshal (env s) (setWorkerMetadata (env s) ar0) = Inr blob
        \<and> cache_Set (cache s) (AttachUserPrefixToContext (env s) ctx) (Some ad) blob st = (None, st') \<longrightarrow>
        UpdateActionResult s ctx req st =
          (Inr (setWorkerMetadata (env s) ar0), st',
           [CallSet (AttachUserPrefixToContext (env s) ctx) (Some ad) blob])"
    by (intro allI impI) (elim conjE, rule update_success_path)
  from a b c d show ?thesis by (intro conjI)
qed

theorem update_ignores_presence_witness:
  "UpdateActionResult
      (exServer\<lparr>cache := (cache exServer)
         \<lparr>cache_Get := (\<lambda>ctx d st. Inl (PlainError ''unavailable'')),
          cache_ContainsMulti := (\<lambda>ctx ds st. Inl (PlainError ''unavailable''))\<rparr>\<rparr>)
      ''c/'' \<lparr>UpdReq_ActionDigest = Some exAction, UpdReq_ActionResult = Some exResult\<rparr>
      Map.empty
   = (Inr exStamped, [(''c/user1/ac-'', Some exAction) \<mapsto> [10]],
      [CallSet ''c/user1/'' (Some exAction) [10]])
   \<and> fst (UpdateActionResult exServer ''c/''
        \<lparr>UpdReq_ActionDigest = Some exAction, UpdReq_ActionResult = Some exResult\<rparr>
        [(''c/user1/ac-'', Some exOut) \<mapsto> [1, 2, 3]])
     = fst (UpdateActionResult exServer ''c/''
        \<lparr>UpdReq_ActionDigest = Some exAction, UpdReq_ActionResult = Some exResult\<rparr>
        Map.empty)"
proof -
  let ?req = "\<lparr>UpdReq_ActionDigest = Some exAction, UpdReq_ActionResult = Some exResult\<rparr>"
  let ?st1 = "[(''c/user1/ac-'', Some exOut) \<mapsto> [1, 2, 3::8 word]]"
  have sets: "\<forall>d b. fst (cache_Set (cache exServer)
                 (AttachUserPrefixToContext (env exServer) ''c/'') d b ?st1)
             = fst (cache_Set (cache exServer)
                 (AttachUserPrefixToContext (env exServer) ''c/'') d b Map.empty)"
    by (simp add: ex_defs)
  from update_ignores_presence
    [where s = exServer and ctx = "''c/''" and req = ?req and st = Map.empty
       and ?st1.0 = ?st1 and ?st2.0 = Map.empty
       and g = "\<lambda>ctx d st. Inl (PlainError ''unavailable'')"
       and m = "\<lambda>ctx ds st. Inl (PlainError ''unavailable'')"] sets
  show ?thesis
    by (simp add: exServer_update)
qed

subsection \<open>validateActionResult\<close>

lemma andThen_ok [simp]: "andThen (None, cs) b = (fst b, cs @ snd b)"
  by (simp add: andThen_def)

lemma andThen_err [simp]: "andThen (Some e, cs) b = (Some e, cs)"
  by (simp add: andThen_def)

lemma andThen_unit [simp]: "andThen a (None, []) = a"
  by (cases a; cases "fst a") (auto simp: andThen_def)

lemma andThen_assoc: "andThen (andThen a b) c = andThen a (andThen b c)"
  by (cases a; cases b; cases "fst a"; cases "fst b") (auto simp: andThen_def)

lemma firstFailure_append:
  "firstFailure (xs @ ys) = andThen (firstFailure xs) (firstFailure ys)"
  by (induction xs) (simp_all add: andThen_assoc)

lemma firstFailure_fst:
  "fst (firstFailure ps) = (case find (\<lambda>p. fst p \<noteq> None) ps of None \<Rightarrow> None | Some p \<Rightarrow> fst p)"
  by (induction ps) (auto simp: andThen_def split: option.splits)

lemma firstFailure_snd:
  "snd (firstFailure ps) =
     concat (map snd (takeWhile (\<lambda>p. fst p = None) ps @ take 1 (dropWhile (\<lambda>p. fst p = None) ps)))"
  by (induction ps) (auto simp: andThen_def split: option.splits)

lemma checkChildren_steps:
  "checkChildren s ctx cs st = firstFailure (map (\<lambda>childDir. checkDirExists s ctx (Some childDir) st) cs)"
  by (induction cs) simp_all

lemma checkOutputDirectories_steps:
  "checkOutputDirectories s ctx ds st = firstFailure (concat (map (dirSteps s ctx st) ds))"
proof (induction ds)
  case Nil
  show ?case by simp
next
  case (Cons d ds)
  show ?case
  proof (cases "cache_Get (cache s) ctx (TreeDigest d) st")
    case (Inl err)
    then show ?thesis by (simp add: dirSteps_def)
  next
    case (Inr blob)
    show ?thesis
    proof (cases "UnmarshalTree (env s) blob")
      case (Inl msg)
      with Inr show ?thesis by (simp add: dirSteps_def)
    next
      case tree: (Inr tree)
      have unfolded: "dirSteps s ctx st d =
            (None, [CallGet ctx (TreeDigest d)])
              # checkDirExists s ctx (Root tree) st
              # map (\<lambda>childDir. checkDirExists s ctx (Some childDir) st) (Children tree)"
        using Inr tree by (simp add: dirSteps_def)
      have "checkOutputDirectories s ctx (d # ds) st =
            andThen (None, [CallGet ctx (TreeDigest d)])
              (andThen (checkDirExists s ctx (Root tree) st)
                 (andThen (checkChildren s ctx (Children tree) st)
                    (checkOutputDirectories s ctx ds st)))"
        using Inr tree by simp
      also have "\<dots> = firstFailure (dirSteps s ctx st d @ concat (map (dirSteps s ctx st) ds))"
        by (simp add: unfolded firstFailure_append checkChildren_steps Cons.IH
              del: andThen_ok)
      finally show ?thesis by simp
    qed
  qed
qed

lemma validateActionResult_steps:
  "validateActionResult s ctx r st = firstFailure (validationSteps s ctx r st)"
  by (simp add: validateActionResult_def validationSteps_def checkOutputDirectories_steps)

text \<open>
  Claim C5. \<open>validateActionResult\<close> does what the list of steps says, in its order, and
  stops at the first failure: its verdict is the verdict of the first failing step
  (nil when no step fails), and the calls it makes are those of the steps up to and
  including that one, so that nothing is checked after a failure and no second
  failure is collected. The steps of an output directory are the fetch of its tree by
  \<^verbatim>\<open>TreeDigest\<close> with its decoding, the check of the root and the check of each child in
  turn; a tree that the store does not return ends the validation with the store's
  error, after that one \<open>Get\<close>.
\<close>

theorem validateActionResult_first_failure:
  "fst (validateActionResult s ctx r st) =
     (case find (\<lambda>p. fst p \<noteq> None) (validationSteps s ctx r st) of
        None \<Rightarrow> None
      | Some p \<Rightarrow> fst p)
   \<and> snd (validateActionResult s ctx r st) =
       concat (map snd
         (takeWhile (\<lambda>p. fst p = None) (validationSteps s ctx r st)
            @ take 1 (dropWhile (\<lambda>p. fst p = None) (validationSteps s ctx r st))))
   \<and> (\<forall>d ds err. cache_Get (cache s) ctx (TreeDigest d) st = Inl err \<longrightarrow>
        checkOutputDirectories s ctx (d # ds) st = (Some err, [CallGet ctx (TreeDigest d)]))"
proof -
  have "\<forall>d ds err. cache_Get (cache s) ctx (TreeDigest d) st = Inl err \<longrightarrow>
        checkOutputDirectories s ctx (d # ds) st = (Some err, [CallGet ctx (TreeDigest d)])"
    by simp
  then show ?thesis
    by (simp only: validateActionResult_steps firstFailure_fst firstFailure_snd simp_thms)
qed

lemma exServer_steps:
  "validationSteps exServer ''u/'' exDirResult2
     [(''u/ac-'', Some exTreeDigest2) \<mapsto> [21], (''u/ac-'', Some exOut) \<mapsto> [1, 2, 3]]
   = [(None, [CallContainsMulti ''u/'' []]),
      (None, [CallGet ''u/'' (Some exTreeDigest2)]),
      (None, [CallContainsMulti ''u/'' []]),
      (None, [CallContainsMulti ''u/'' [Some exOut]]),
      (Some (fileNotFoundErr (env exServer) (Some exOther)),
       [CallContainsMulti ''u/'' [Some exOther]]),
      (None, [CallContainsMulti ''u/'' [Some exOut]]),
      (Some (StatusError NotFound ''key not found in cache''),
       [CallGet ''u/'' (Some exTreeDigest)])]"
  by (simp add: validationSteps_def dirSteps_def checkDirExists_def checkFilesExist_def
        GetFiles_def ex_defs ex_values)

theorem validateActionResult_first_failure_witness:
  "validateActionResult exServer ''u/'' exDirResult2
     [(''u/ac-'', Some exTreeDigest2) \<mapsto> [21], (''u/ac-'', Some exOut) \<mapsto> [1, 2, 3]]
   = (Some (StatusError NotFound
        (''ActionResult output file: '' @ [CHR 0x27] @ ''out2'' @ [CHR 0x27]
           @ '' not found in cache'')),
      [CallContainsMulti ''u/'' [],
       CallGet ''u/'' (Some exTreeDigest2),
       CallContainsMulti ''u/'' [],
       CallContainsMulti ''u/'' [Some exOut],
       CallContainsMulti ''u/'' [Some exOther]])
   \<and> checkOutputDirectories exServer ''u/'' (OutputDirectories exDirResult2) Map.empty
     = (Some (StatusError NotFound ''key not found in cache''),
        [CallGet ''u/'' (Some exTreeDigest2)])"
proof -
  let ?st = "[(''u/ac-'', Some exTreeDigest2) \<mapsto> [21::8 word],
              (''u/ac-'', Some exOut) \<mapsto> [1, 2, 3]]"
  note t = validateActionResult_first_failure [of exServer "''u/''" exDirResult2 ?st]
  have a: "fst (validateActionResult exServer ''u/'' exDirResult2 ?st)
             = Some (fileNotFoundErr (env exServer) (Some exOther))"
    using t unfolding exServer_steps by simp
  have b: "snd (validateActionResult exServer ''u/'' exDirResult2 ?st)
             = [CallContainsMulti ''u/'' [],
                CallGet ''u/'' (Some exTreeDigest2),
                CallContainsMulti ''u/'' [],
                CallContainsMulti ''u/'' [Some exOut],
                CallContainsMulti ''u/'' [Some exOther]]"
    using t unfolding exServer_steps by simp
  have miss: "cache_Get (cache exServer) ''u/'' (TreeDigest \<lparr>DirPath = ''gen'', TreeDigest = Some exTreeDigest2\<rparr>) Map.empty
                = Inl (StatusError NotFound ''key not found in cache'')"
    by (simp add: ex_defs)
  have c: "checkOutputDirectories exServer ''u/'' (OutputDirectories exDirResult2) Map.empty
     = (Some (StatusError NotFound ''key not found in cache''),
        [CallGet ''u/'' (Some exTreeDigest2)])"
    using validateActionResult_first_failure [of exServer "''u/''" exDirResult2 Map.empty] miss
    by (simp add: exDirResult2_def)
  have "validateActionResult exServer ''u/'' exDirResult2 ?st
          = (fst (validateActionResult exServer ''u/'' exDirResult2 ?st),
             snd (validateActionResult exServer ''u/'' exDirResult2 ?st))"
    by simp
  with a b c show ?thesis
    by (simp add: fileNotFoundErr_def ex_defs ex_values)
qed

subsection \<open>The digests that are looked up\<close>

lemma outputFileDigests_filter:
  "outputFileDigests fs acc =
     acc @ map Digest (filter (\<lambda>f. Contents f \<noteq> [] \<and> 0 < sint (GetSizeBytes (Digest f))) fs)"
  by (induction fs arbitrary: acc) auto

lemma dirDigests_filter:
  "dirDigests fs acc = acc @ map FileDigest (filter (\<lambda>f. FileDigest f \<noteq> None) fs)"
  by (induction fs arbitrary: acc) auto

lemma outputFileDigests_nontrivial:
  "d \<in> set (outputFileDigests fs []) \<Longrightarrow> d \<noteq> None \<and> GetSizeBytes d \<noteq> 0"
  by (auto simp: outputFileDigests_filter GetSizeBytes_def split: option.splits)

lemma dirDigests_set: "d \<in> set (dirDigests fs []) \<Longrightarrow> d \<noteq> None"
  by (auto simp: dirDigests_filter)

lemma validateActionResult_calls:
  "snd (validateActionResult s ctx r st) =
     CallContainsMulti ctx (outputFileDigests (OutputFiles r) [])
       # (case fst (checkFilesExist s ctx (outputFileDigests (OutputFiles r) []) st) of
            None \<Rightarrow> snd (checkOutputDirectories s ctx (OutputDirectories r) st)
          | Some err \<Rightarrow> [])"
  by (simp add: validateActionResult_def andThen_def checkFilesExist_calls split: option.splits)

text \<open>
  Claim C4. The output-file step of \<open>validateActionResult\<close> is one call of
  \<open>checkFilesExist\<close>, which makes exactly one cache call, a \<open>ContainsMulti\<close> for the whole
  list, however many digests the list holds; that call is the first call of the
  validation and every later call belongs to the directory step. The list it carries
  holds the digests of exactly the output files whose \<^verbatim>\<open>Contents\<close> is not empty and
  whose digest has a size above zero, in the order of the files; as sizes are not
  negative, that is the files with non-empty content and a non-zero size.
\<close>

theorem output_files_one_batched_query:
  "snd (checkFilesExist s ctx (outputFileDigests (OutputFiles r) []) st)
     = [CallContainsMulti ctx (outputFileDigests (OutputFiles r) [])]
   \<and> snd (validateActionResult s ctx r st) =
       CallContainsMulti ctx (outputFileDigests (OutputFiles r) [])
         # (case fst (checkFilesExist s ctx (outputFileDigests (OutputFiles r) []) st) of
              None \<Rightarrow> snd (checkOutputDirectories s ctx (OutputDirectories r) st)
            | Some err \<Rightarrow> [])
   \<and> outputFileDigests (OutputFiles r) [] =
       map Digest (filter (\<lambda>f. Contents f \<noteq> [] \<and> 0 < sint (GetSizeBytes (Digest f)))
         (OutputFiles r))
   \<and> set (outputFileDigests (OutputFiles r) []) =
       {Digest f | f. f \<in> set (OutputFiles r) \<and> Contents f \<noteq> []
          \<and> 0 < sint (GetSizeBytes (Digest f))}
   \<and> ((\<forall>f\<in>set (OutputFiles r). 0 \<le> sint (GetSizeBytes (Digest f))) \<longrightarrow>
        set (outputFileDigests (OutputFiles r) []) =
          {Digest f | f. f \<in> set (OutputFiles r) \<and> Contents f \<noteq> []
             \<and> GetSizeBytes (Digest f) \<noteq> 0})"
proof -
  have nz: "0 \<le> sint w \<Longrightarrow> (0 < sint w) = (w \<noteq> 0)" for w :: "64 word"
    by (cases "w = 0") (auto simp: less_le signed_eq_0_iff)
  have e: "(\<forall>f\<in>set (OutputFiles r). 0 \<le> sint (GetSizeBytes (Digest f))) \<longrightarrow>
        {Digest f | f. f \<in> set (OutputFiles r) \<and> Contents f \<noteq> []
          \<and> 0 < sint (GetSizeBytes (Digest f))} =
          {Digest f | f. f \<in> set (OutputFiles r) \<and> Contents f \<noteq> []
             \<and> GetSizeBytes (Digest f) \<noteq> 0}"
    using nz by blast
  have f: "set (outputFileDigests (OutputFiles r) []) =
       {Digest f | f. f \<in> set (OutputFiles r) \<and> Contents f \<noteq> []
          \<and> 0 < sint (GetSizeBytes (Digest f))}"
    by (auto simp: outputFileDigests_filter)
  show ?thesis
    using e f by (simp add: checkFilesExist_calls validateActionResult_calls outputFileDigests_filter)
qed

theorem output_files_one_batched_query_witness:
  "outputFileDigests (OutputFiles exMixed) [] = [Some exOut]
   \<and> set (outputFileDigests (OutputFiles exMixed) []) =
       {Digest f | f. f \<in> set (OutputFiles exMixed) \<and> Contents f \<noteq> []
          \<and> GetSizeBytes (Digest f) \<noteq> 0}
   \<and> validateActionResult exServer ''u/'' exMixed [(''u/ac-'', Some exOut) \<mapsto> [1, 2, 3]]
     = (None, [CallContainsMulti ''u/'' [Some exOut]])"
proof -
  let ?st = "[(''u/ac-'', Some exOut) \<mapsto> [1, 2, 3::8 word]]"
  note t = output_files_one_batched_query [of exServer "''u/''" exMixed ?st]
  have h: "\<forall>f\<in>set (OutputFiles exMixed). 0 \<le> sint (GetSizeBytes (Digest f))"
    by (simp add: exMixed_def GetSizeBytes_def ex_values)
  have a: "outputFileDigests (OutputFiles exMixed) [] = [Some exOut]"
    using t by (simp add: exMixed_def GetSizeBytes_def exOut_def exOther_def exEmpty_def)
  have b: "set (outputFileDigests (OutputFiles exMixed) []) =
       {Digest f | f. f \<in> set (OutputFiles exMixed) \<and> Contents f \<noteq> []
          \<and> GetSizeBytes (Digest f) \<noteq> 0}"
    using t h by blast
  have ok: "fst (checkFilesExist exServer ''u/'' [Some exOut] ?st) = None"
    by (simp add: checkFilesExist_def ex_defs)
  have v: "fst (validateActionResult exServer ''u/'' exMixed ?st) = None"
    using ok a by (simp add: validateActionResult_def andThen_def exMixed_def)
  have c: "snd (validateActionResult exServer ''u/'' exMixed ?st)
             = [CallContainsMulti ''u/'' [Some exOut]]"
    using t ok unfolding a by (simp add: exMixed_def)
  have "validateActionResult exServer ''u/'' exMixed ?st
          = (fst (validateActionResult exServer ''u/'' exMixed ?st),
             snd (validateActionResult exServer ''u/'' exMixed ?st))"
    by simp
  with a b c v show ?thesis by simp
qed

text \<open>
  Claim C2 says that an entry with no digest, or with a digest of size 0, is never part
  of a \<open>ContainsMulti\<close> batch, for output files and for the files of a directory alike.
  Lemmas \<open>outputFileDigests_nontrivial\<close> and \<open>dirDigests_set\<close> give what the code does
  of that: on the output-file path both kinds are left out, on the directory path the
  entries with no digest are. The
  directory loop has no test of the size, though, unlike the output-file loop: the
  digest of size 0 in the child of \<open>exTree\<close> is put in a batch, and as the store does
  not hold it, the cached result is reported as not found although every blob of
  non-zero size that it refers to is there.
\<close>

theorem checkDirExists_looks_up_empty_digest:
  "SizeBytes exEmpty = 0
   \<and> checkDirExists exServer ''c/user1/'' (Some \<lparr>Files = [\<lparr>FileDigest = Some exEmpty\<rparr>]\<rparr>)
        [(''c/user1/ac-'', Some exAction) \<mapsto> [11],
         (''c/user1/ac-'', Some exTreeDigest) \<mapsto> [20],
         (''c/user1/ac-'', Some exOut) \<mapsto> [1, 2, 3]]
     = (Some (StatusError NotFound
          (''ActionResult output file: '' @ [CHR 0x27] @ ''e3b0'' @ [CHR 0x27]
             @ '' not found in cache'')),
        [CallContainsMulti ''c/user1/'' [Some exEmpty]])
   \<and> GetActionResult exServer ''c/'' \<lparr>GetReq_ActionDigest = Some exAction\<rparr>
        [(''c/user1/ac-'', Some exAction) \<mapsto> [11],
         (''c/user1/ac-'', Some exTreeDigest) \<mapsto> [20],
         (''c/user1/ac-'', Some exOut) \<mapsto> [1, 2, 3]]
     = (Inl (StatusError NotFound
          (''ActionResult (act1) not found: ActionResult output file: '' @ [CHR 0x27] @ ''e3b0''
             @ [CHR 0x27] @ '' not found in cache'')),
        [CallGet ''c/user1/'' (Some exAction),
         CallContainsMulti ''c/user1/'' [],
         CallGet ''c/user1/'' (Some exTreeDigest),
         CallContainsMulti ''c/user1/'' [Some exOut],
         CallContainsMulti ''c/user1/'' [Some exEmpty]])"
  by (simp add: GetActionResult_def validateActionResult_def checkDirExists_def
        checkFilesExist_def fileNotFoundErr_def notFoundMsg_def GetFiles_def Let_def
        ex_defs ex_values)

subsection \<open>The round trip\<close>

lemma present_checkFilesExist:
  assumes "storeAnswers (cache s) ctx st present" and "\<forall>d\<in>set ds. present d"
  shows "fst (checkFilesExist s ctx ds st) = None"
proof -
  from assms(1) obtain m where m: "cache_ContainsMulti (cache s) ctx ds st = Inr m"
    and e: "\<forall>d\<in>set ds. m d = Some (present d)"
    unfolding storeAnswers_def by blast
  from e assms(2) have "\<forall>d\<in>set ds. m d = Some True" by simp
  then have "checkFound (env s) m ds = None" by (simp add: checkFound_None_iff)
  with m show ?thesis by (simp add: checkFilesExist_answered)
qed

lemma present_checkDirExists:
  assumes "storeAnswers (cache s) ctx st present" and "filesPresent present dir"
  shows "fst (checkDirExists s ctx dir st) = None"
proof -
  have "\<forall>d\<in>set (dirDigests (GetFiles dir) []). present d"
    using assms(2) by (auto simp: filesPresent_def dirDigests_filter list_all_iff)
  with assms(1) show ?thesis
    unfolding checkDirExists_def by (rule present_checkFilesExist)
qed

lemma present_outputFileDigests:
  assumes "list_all (\<lambda>f. Digest f = None \<or> present (Digest f)) fs"
  shows "\<forall>d\<in>set (outputFileDigests fs []). present d"
  using assms by (auto simp: outputFileDigests_filter list_all_iff GetSizeBytes_def)

lemma present_dirSteps:
  assumes "storeAnswers (cache s) ctx st present"
    and "cache_Get (cache s) ctx (TreeDigest d) st = Inr blob"
    and "UnmarshalTree (env s) blob = Inr tree"
    and "filesPresent present (Root tree)"
    and "list_all (\<lambda>childDir. filesPresent present (Some childDir)) (Children tree)"
  shows "\<forall>p\<in>set (dirSteps s ctx st d). fst p = None"
  using assms present_checkDirExists [OF assms(1)]
  by (auto simp: dirSteps_def list_all_iff)

lemma present_validationSteps:
  assumes "storeAnswers (cache s) ctx st present" and "outputsPresent s ctx st present r"
  shows "\<forall>p\<in>set (validationSteps s ctx r st). fst p = None"
proof -
  have files: "fst (checkFilesExist s ctx (outputFileDigests (OutputFiles r) []) st) = None"
    using assms(2) present_outputFileDigests present_checkFilesExist [OF assms(1)]
    unfolding outputsPresent_def by blast
  have dirs: "\<forall>p\<in>set (dirSteps s ctx st d). fst p = None" if "d \<in> set (OutputDirectories r)" for d
  proof -
    from that assms(2)
    have c: "(case cache_Get (cache s) ctx (TreeDigest d) st of
                Inl err \<Rightarrow> False
              | Inr blob \<Rightarrow>
                  (case UnmarshalTree (env s) blob of
                     Inl msg \<Rightarrow> False
                   | Inr tree \<Rightarrow>
                       filesPresent present (Root tree)
                       \<and> list_all (\<lambda>childDir. filesPresent present (Some childDir))
                           (Children tree)))"
      unfolding outputsPresent_def list_all_iff by blast
    then obtain blob where b: "cache_Get (cache s) ctx (TreeDigest d) st = Inr blob"
      by (cases "cache_Get (cache s) ctx (TreeDigest d) st") auto
    with c obtain tree where t: "UnmarshalTree (env s) blob = Inr tree"
      by (cases "UnmarshalTree (env s) blob") auto
    from c b t have "filesPresent present (Root tree)"
      and "list_all (\<lambda>childDir. filesPresent present (Some childDir)) (Children tree)"
      by simp_all
    with b t have "cache_Get (cache s) ctx (TreeDigest d) st = Inr blob"
        and "UnmarshalTree (env s) blob = Inr tree"
        and "filesPresent present (Root tree)"
        and "list_all (\<lambda>childDir. filesPresent present (Some childDir)) (Children tree)"
      by simp_all
    with assms(1) show ?thesis by (rule present_dirSteps)
  qed
  show ?thesis
    using files dirs by (auto simp: validationSteps_def)
qed

lemma present_validateActionResult:
  assumes "storeAnswers (cache s) ctx st present" and "outputsPresent s ctx st present r"
  shows "fst (validateActionResult s ctx r st) = None"
proof -
  have "find (\<lambda>p. fst p \<noteq> None) (validationSteps s ctx r st) = None"
    using present_validationSteps [OF assms] by (auto simp: find_None_iff)
  then show ?thesis
    by (simp add: validateActionResult_steps firstFailure_fst)
qed

lemma outputsPresent_stamped:
  "outputsPresent s ctx st present (setWorkerMetadata e r) = outputsPresent s ctx st present r"
  by (simp add: outputsPresent_def setWorkerMetadata_def)

lemma get_success_path:
  assumes "Validate (env s) ad = None"
    and "cache_Get (cache s) (AttachUserPrefixToContext (env s) ctx) (Some ad) st = Inr blob"
    and "UnmarshalActionResult (env s) blob = Inr rsp"
    and "fst (validateActionResult s (AttachUserPrefixToContext (env s) ctx) rsp st) = None"
  shows "fst (GetActionResult s ctx \<lparr>GetReq_ActionDigest = Some ad\<rparr> st) = Inr rsp"
  using assms by (auto simp: GetActionResult_def Let_def split: prod.splits)

text \<open>
  Claim C1, as the code has it. Let \<open>UpdateActionResult\<close> of \<open>r\<close> under a valid digest
  succeed (the result encodes and the store takes it), let the store return what was
  stored and the encoding decode to what was encoded, and let every output that \<open>r\<close>
  refers to be present in the store. Then \<open>GetActionResult\<close> on that digest returns \<open>r\<close>
  with its \<^verbatim>\<open>ExecutionMetadata\<close> replaced by a message that holds the server's worker
  identifier only: \<^verbatim>\<open>OutputFiles\<close> and \<^verbatim>\<open>OutputDirectories\<close> are what was written, and
  when \<open>r\<close> came with metadata that had no field other than the worker, the result is
  \<open>r\<close> with the worker replaced and nothing else changed.
\<close>

theorem update_then_get_roundtrip:
  "Validate (env s) ad = None \<Longrightarrow>
   Marshal (env s) (setWorkerMetadata (env s) r) = Inr blob \<Longrightarrow>
   UnmarshalActionResult (env s) blob = Inr (setWorkerMetadata (env s) r) \<Longrightarrow>
   cache_Set (cache s) (AttachUserPrefixToContext (env s) ctx) (Some ad) blob st = (None, st') \<Longrightarrow>
   cache_Get (cache s) (AttachUserPrefixToContext (env s) ctx) (Some ad) st' = Inr blob \<Longrightarrow>
   storeAnswers (cache s) (AttachUserPrefixToContext (env s) ctx) st' present \<Longrightarrow>
   outputsPresent s (AttachUserPrefixToContext (env s) ctx) st' present r \<Longrightarrow>
   UpdateActionResult s ctx \<lparr>UpdReq_ActionDigest = Some ad, UpdReq_ActionResult = Some r\<rparr> st
     = (Inr (setWorkerMetadata (env s) r), st',
        [CallSet (AttachUserPrefixToContext (env s) ctx) (Some ad) blob])
   \<and> (\<exists>x. fst (GetActionResult s ctx \<lparr>GetReq_ActionDigest = Some ad\<rparr> st') = Inr x
         \<and> x = r\<lparr>ExecutionMetadata :=
                   Some \<lparr>Worker = NodeID_base64 (env s), OtherFields = []\<rparr>\<rparr>
         \<and> OutputFiles x = OutputFiles r
         \<and> OutputDirectories x = OutputDirectories r
         \<and> (\<forall>m. ExecutionMetadata r = Some m \<and> OtherFields m = [] \<longrightarrow>
               x = r\<lparr>ExecutionMetadata := Some (m\<lparr>Worker := NodeID_base64 (env s)\<rparr>)\<rparr>))"
proof -
  let ?ctx = "AttachUserPrefixToContext (env s) ctx"
  let ?r' = "setWorkerMetadata (env s) r"
  assume v: "Validate (env s) ad = None"
    and m: "Marshal (env s) ?r' = Inr blob"
    and u: "UnmarshalActionResult (env s) blob = Inr ?r'"
    and set: "cache_Set (cache s) ?ctx (Some ad) blob st = (None, st')"
    and get: "cache_Get (cache s) ?ctx (Some ad) st' = Inr blob"
    and ans: "storeAnswers (cache s) ?ctx st' present"
    and pres: "outputsPresent s ?ctx st' present r"
  have upd: "UpdateActionResult s ctx
               \<lparr>UpdReq_ActionDigest = Some ad, UpdReq_ActionResult = Some r\<rparr> st
             = (Inr ?r', st', [CallSet ?ctx (Some ad) blob])"
    using v m set by (simp add: update_success_path)
  have "outputsPresent s ?ctx st' present ?r'"
    using pres by (simp add: outputsPresent_stamped)
  with ans have "fst (validateActionResult s ?ctx ?r' st') = None"
    by (rule present_validateActionResult)
  with v get u have g: "fst (GetActionResult s ctx \<lparr>GetReq_ActionDigest = Some ad\<rparr> st') = Inr ?r'"
    by (rule get_success_path)
  have same: "(\<forall>m. ExecutionMetadata r = Some m \<and> OtherFields m = [] \<longrightarrow>
               ?r' = r\<lparr>ExecutionMetadata := Some (m\<lparr>Worker := NodeID_base64 (env s)\<rparr>)\<rparr>)"
    by (simp add: setWorkerMetadata_def)
  show ?thesis
    using upd g same by (simp add: setWorkerMetadata_def)
qed

lemma mapCache_answers:
  "storeAnswers (mapCache p) ctx st (\<lambda>d. st (ctx @ p, d) \<noteq> None)"
  by (simp add: storeAnswers_def mapCache_def)

theorem update_then_get_roundtrip_witness:
  "UpdateActionResult exServer ''c/''
      \<lparr>UpdReq_ActionDigest = Some exAction,
       UpdReq_ActionResult =
         Some (exStamped\<lparr>ExecutionMetadata := Some \<lparr>Worker = ''client'', OtherFields = []\<rparr>\<rparr>)\<rparr>
      [(''c/user1/ac-'', Some exOut) \<mapsto> [1, 2, 3]]
   = (Inr exStamped,
      [(''c/user1/ac-'', Some exOut) \<mapsto> [1, 2, 3], (''c/user1/ac-'', Some exAction) \<mapsto> [10]],
      [CallSet ''c/user1/'' (Some exAction) [10]])
   \<and> fst (GetActionResult exServer ''c/'' \<lparr>GetReq_ActionDigest = Some exAction\<rparr>
        [(''c/user1/ac-'', Some exOut) \<mapsto> [1, 2, 3], (''c/user1/ac-'', Some exAction) \<mapsto> [10]])
     = Inr exStamped"
proof -
  let ?r = "exStamped\<lparr>ExecutionMetadata := Some \<lparr>Worker = ''client'', OtherFields = []\<rparr>\<rparr>"
  let ?st = "[(''c/user1/ac-'', Some exOut) \<mapsto> [1, 2, 3::8 word]]"
  let ?st' = "[(''c/user1/ac-'', Some exOut) \<mapsto> [1, 2, 3::8 word],
               (''c/user1/ac-'', Some exAction) \<mapsto> [10]]"
  let ?present = "\<lambda>d. ?st' (''c/user1/'' @ acCachePrefix, d) \<noteq> None"
  have ctx: "AttachUserPrefixToContext (env exServer) ''c/'' = ''c/user1/''"
    by (simp add: ex_defs)
  have stamped: "setWorkerMetadata (env exServer) ?r = exStamped"
    by (simp add: setWorkerMetadata_def ex_defs exStamped_def)
  have h1: "Validate (env exServer) exAction = None"
    by (simp add: ex_defs exAction_def)
  have h2: "Marshal (env exServer) (setWorkerMetadata (env exServer) ?r) = Inr [10]"
    unfolding stamped by (simp add: ex_defs)
  have h3: "UnmarshalActionResult (env exServer) [10]
              = Inr (setWorkerMetadata (env exServer) ?r)"
    unfolding stamped by (simp add: ex_defs)
  have h4: "cache_Set (cache exServer) (AttachUserPrefixToContext (env exServer) ''c/'')
              (Some exAction) [10] ?st = (None, ?st')"
    by (simp add: ex_defs)
  have h5: "cache_Get (cache exServer) (AttachUserPrefixToContext (env exServer) ''c/'')
              (Some exAction) ?st' = Inr [10]"
    by (simp add: ex_defs)
  have h6: "storeAnswers (cache exServer) (AttachUserPrefixToContext (env exServer) ''c/'')
              ?st' ?present"
    unfolding ctx using mapCache_answers [of acCachePrefix "''c/user1/''" ?st']
    by (simp add: exServer_def tableServer_def)
  have h7: "outputsPresent exServer (AttachUserPrefixToContext (env exServer) ''c/'')
              ?st' ?present ?r"
    by (simp add: outputsPresent_def exStamped_def acCachePrefix_def)
  note t = update_then_get_roundtrip [OF h1 h2 h3 h4 h5 h6 h7]
  have stamped': "?r\<lparr>ExecutionMetadata :=
                     Some \<lparr>Worker = NodeID_base64 (env exServer), OtherFields = []\<rparr>\<rparr>
                  = exStamped"
    by (simp add: ex_defs exStamped_def)
  have a: "UpdateActionResult exServer ''c/''
             \<lparr>UpdReq_ActionDigest = Some exAction, UpdReq_ActionResult = Some ?r\<rparr> ?st
           = (Inr exStamped, ?st', [CallSet ''c/user1/'' (Some exAction) [10]])"
    using t unfolding ctx stamped by (rule conjunct1)
  have b: "fst (GetActionResult exServer ''c/'' \<lparr>GetReq_ActionDigest = Some exAction\<rparr> ?st')
             = Inr exStamped"
    using t unfolding stamped' by blast
  from a b show ?thesis by (rule conjI)
qed

text \<open>
  Claim C1 as it is written fails: the result read back is not always \<open>r\<close> with only the
  worker field changed. \<open>exResult\<close> is written with a \<^verbatim>\<open>queued_timestamp\<close> in its
  metadata and all its outputs present; what is read back has lost it.
\<close>

theorem roundtrip_drops_other_metadata_counterexample:
  "fst (GetActionResult exServer ''c/'' \<lparr>GetReq_ActionDigest = Some exAction\<rparr>
          (fst (snd (UpdateActionResult exServer ''c/''
             \<lparr>UpdReq_ActionDigest = Some exAction, UpdReq_ActionResult = Some exResult\<rparr>
             [(''c/user1/ac-'', Some exOut) \<mapsto> [1, 2, 3]]))))
     = Inr exStamped
   \<and> ExecutionMetadata exResult
       = Some \<lparr>Worker = ''client'', OtherFields = [(''queued_timestamp'', [7])]\<rparr>
   \<and> exStamped
       \<noteq> exResult\<lparr>ExecutionMetadata :=
            Some \<lparr>Worker = ''bm9kZTAx'', OtherFields = [(''queued_timestamp'', [7])]\<rparr>\<rparr>"
proof -
  let ?st = "[(''c/user1/ac-'', Some exOut) \<mapsto> [1, 2, 3::8 word]]"
  have upd: "fst (snd (UpdateActionResult exServer ''c/''
             \<lparr>UpdReq_ActionDigest = Some exAction, UpdReq_ActionResult = Some exResult\<rparr> ?st))
           = ?st((''c/user1/ac-'', Some exAction) \<mapsto> [10])"
    by (simp add: exServer_update)
  have get: "fst (GetActionResult exServer ''c/'' \<lparr>GetReq_ActionDigest = Some exAction\<rparr>
               (?st((''c/user1/ac-'', Some exAction) \<mapsto> [10]))) = Inr exStamped"
    by (simp add: GetActionResult_def validateActionResult_def checkFilesExist_def
          GetSizeBytes_def Let_def ex_defs ex_values)
  show ?thesis
    unfolding upd using get by (simp add: ex_values)
qed

end
